theory Spec2Isabelle
  imports Complex_Main "HOL-Library.Log_Nat"
begin

section \<open>Values of type double\<close>

text \<open>
  The pump stores and compares C++ \<^verbatim>\<open>double\<close> values, which are IEEE 754 binary64
  values: a finite value, an infinity or a NaN. A finite value is given by the real
  number it stands for. The finite binary64 values are the integer multiples of
  \<^verbatim>\<open>2^-1074\<close> that have at most 53 significant bits and a magnitude below
  \<^verbatim>\<open>2^1024\<close>. The sign of a zero is not modelled: no operation that the pump
  applies to a double tells \<open>-0\<close> from \<open>0\<close>.
\<close>

datatype double = Finite real | PosInf | NegInf | NaN

fun isnan :: "double \<Rightarrow> bool" where
  "isnan NaN = True"
| "isnan _ = False"

text \<open>
  Rounding to the nearest integer, a tie going to the even one.
\<close>

definition round_half_even :: "real \<Rightarrow> int" where
  "round_half_even z =
     (let f = \<lfloor>z\<rfloor> in
      if z - of_int f < 1 / 2 then f
      else if 1 / 2 < z - of_int f then f + 1
      else if even f then f else f + 1)"

text \<open>
  Rounding a magnitude that is counted in units of \<^verbatim>\<open>2^-1074\<close> to the nearest
  integer with at most 53 significant bits, a tie going to the even significand. A
  magnitude below \<^verbatim>\<open>2^53\<close> units is rounded to a whole number of units, which covers
  the subnormal values; a magnitude with \<open>53 + sh\<close> bits before the point is rounded
  to a multiple of \<^verbatim>\<open>2^sh\<close> units.
\<close>

definition round_to_53_bits :: "real \<Rightarrow> int" where
  "round_to_53_bits y =
     (let sh = nat (bitlen \<lfloor>y\<rfloor> - 53) in round_half_even (y / 2 ^ sh) * 2 ^ sh)"

text \<open>
  Rounding a real number to binary64 in the default rounding mode, to nearest with
  ties to even. A result of \<^verbatim>\<open>2^1024\<close> or more, which is \<^verbatim>\<open>2^2098\<close> units, overflows
  to an infinity.
\<close>

definition round_binary64 :: "real \<Rightarrow> double" where
  "round_binary64 x =
     (let n = round_to_53_bits (\<bar>x\<bar> * 2 ^ 1074) in
      if 2 ^ 2098 \<le> n then (if x < 0 then NegInf else PosInf)
      else Finite (sgn x * of_int n / 2 ^ 1074))"

text \<open>A double is a binary64 value if it is not finite or rounding leaves it as it is.\<close>

fun is_binary64 :: "double \<Rightarrow> bool" where
  "is_binary64 (Finite x) = (round_binary64 x = Finite x)"
| "is_binary64 _ = True"

text \<open>
  \<^verbatim>\<open>a - b\<close> on doubles: the exact difference of two finite values, rounded to
  binary64; the difference is evaluated in binary64, with no wider intermediate
  format. A NaN operand makes the difference NaN, and so does the difference of two
  equal infinities.
\<close>

fun fsub :: "double \<Rightarrow> double \<Rightarrow> double" where
  "fsub NaN _ = NaN"
| "fsub _ NaN = NaN"
| "fsub (Finite a) (Finite b) = round_binary64 (a - b)"
| "fsub (Finite a) PosInf = NegInf"
| "fsub (Finite a) NegInf = PosInf"
| "fsub PosInf PosInf = NaN"
| "fsub PosInf _ = PosInf"
| "fsub NegInf NegInf = NaN"
| "fsub NegInf _ = NegInf"

text \<open>\<^verbatim>\<open>std::fabs\<close>, which is exact.\<close>

fun fabs :: "double \<Rightarrow> double" where
  "fabs (Finite a) = Finite \<bar>a\<bar>"
| "fabs PosInf = PosInf"
| "fabs NegInf = PosInf"
| "fabs NaN = NaN"

text \<open>\<^verbatim>\<open>a >= b\<close> on doubles; every ordered comparison with a NaN is false.\<close>

fun fge :: "double \<Rightarrow> double \<Rightarrow> bool" where
  "fge NaN _ = False"
| "fge _ NaN = False"
| "fge (Finite a) (Finite b) = (b \<le> a)"
| "fge PosInf _ = True"
| "fge _ NegInf = True"
| "fge (Finite a) PosInf = False"
| "fge NegInf _ = False"

text \<open>\<^verbatim>\<open>a != b\<close> on doubles: a NaN differs from everything, itself included.\<close>

fun fne :: "double \<Rightarrow> double \<Rightarrow> bool" where
  "fne NaN _ = True"
| "fne _ NaN = True"
| "fne a b = (a \<noteq> b)"

section \<open>Orientation samples\<close>

text \<open>
  \<^verbatim>\<open>device::OrientationData\<close>: three angles, a presence flag for each, the flag
  telling whether the sample comes from the absolute orientation sensor, and the flag
  telling whether all available sensors delivered a reading.
\<close>

record OrientationData =
  alpha :: double
  beta :: double
  gamma :: double
  has_alpha :: bool
  has_beta :: bool
  has_gamma :: bool
  absolute :: bool
  all_available_sensors_are_active :: bool

text \<open>
  Modelled from the spec: the constructor \<^verbatim>\<open>device::OrientationData()\<close>, which is
  defined in another file. The spec: a freshly constructed sample has all
  angles absent and is not absolute. The stored angle values and the activity flag of
  a fresh sample are not fixed by the spec; they are zero and false here, and no
  result below depends on them.
\<close>

definition OrientationData_default :: OrientationData where
  "OrientationData_default =
     \<lparr> alpha = Finite 0, beta = Finite 0, gamma = Finite 0,
       has_alpha = False, has_beta = False, has_gamma = False,
       absolute = False, all_available_sensors_are_active = False \<rparr>"

section \<open>The significant-change filter\<close>

text \<open>
  \<^verbatim>\<open>DeviceOrientationEventPump::kOrientationThreshold = 0.1\<close>. The constant is the
  binary64 value nearest to one tenth, \<^verbatim>\<open>3602879701896397 / 2^55\<close>, which is a little
  more than one tenth.
\<close>

definition kOrientationThreshold :: double where
  "kOrientationThreshold = Finite (3602879701896397 / 2 ^ 55)"

definition IsAngleDifferentThreshold :: "bool \<Rightarrow> double \<Rightarrow> bool \<Rightarrow> double \<Rightarrow> bool" where
  "IsAngleDifferentThreshold has_angle1 angle1 has_angle2 angle2 =
     (if has_angle1 \<noteq> has_angle2 then True
      else (has_angle1 \<and> fge (fabs (fsub angle1 angle2)) kOrientationThreshold))"

definition IsSignificantlyDifferent :: "OrientationData \<Rightarrow> OrientationData \<Rightarrow> bool" where
  "IsSignificantlyDifferent data1 data2 =
     (IsAngleDifferentThreshold (has_alpha data1) (alpha data1) (has_alpha data2) (alpha data2) \<or>
      IsAngleDifferentThreshold (has_beta data1) (beta data1) (has_beta data2) (beta data2) \<or>
      IsAngleDifferentThreshold (has_gamma data1) (gamma data1) (has_gamma data2) (gamma data2))"

section \<open>Sensor channels\<close>

text \<open>
  The pump owns two \<^verbatim>\<open>SensorEntry\<close> members, one for each sensor type. The pump
  reads the members \<^verbatim>\<open>sensor\<close>, \<^verbatim>\<open>sensor_state\<close> and \<^verbatim>\<open>reading\<close> of an entry and
  calls its methods \<^verbatim>\<open>Start\<close>, \<^verbatim>\<open>Stop\<close>, \<^verbatim>\<open>ReadyOrErrored\<close> and
  \<^verbatim>\<open>SensorReadingCouldBeRead\<close>. The entry belongs to the base class of the pump,
  which is declared in another file, so its parts are modelled from the spec.
\<close>

datatype SensorType = RELATIVE_ORIENTATION_EULER_ANGLES | ABSOLUTE_ORIENTATION_EULER_ANGLES

text \<open>
  Modelled from the spec: the enumeration \<^verbatim>\<open>SensorState\<close>. The spec lists the lifecycle
  states Idle, Initializing, Active, ShouldSuspend, Suspended and Errored.
\<close>

datatype SensorState = IDLE | INITIALIZING | ACTIVE | SHOULD_SUSPEND | SUSPENDED | ERRORED

text \<open>
  \<^verbatim>\<open>reading.timestamp()\<close> and \<^verbatim>\<open>reading.orientation_euler.{x,y,z}\<close>, the fields of a
  sensor reading that the pump looks at.
\<close>

record SensorReading =
  timestamp :: double
  orientation_euler_x :: double
  orientation_euler_y :: double
  orientation_euler_z :: double

text \<open>
  Modelled from the spec: the data of a \<^verbatim>\<open>SensorEntry\<close>. It has a lifecycle state and a
  shared reading buffer that exposes the angles and a timestamp; the buffer either
  reports a value that can be read or does not.
\<close>

record SensorEntry =
  sensor_state :: SensorState
  shared_buffer_readable :: bool
  reading :: SensorReading

text \<open>
  Modelled from the spec: the member \<^verbatim>\<open>sensor\<close>, the handle of the live subscription.
  The spec calls the subscription of a channel live exactly when the channel is
  Active.
\<close>

definition sensor :: "SensorEntry \<Rightarrow> bool" where
  "sensor e = (sensor_state e = ACTIVE)"

text \<open>
  Modelled from the spec: \<^verbatim>\<open>SensorEntry::Start\<close>. The spec: Start requests a
  subscription; it moves Idle and Suspended to Initializing and is a no-op when the
  channel is already Active or Initializing; Errored and Suspended are stable until
  the next Start. The spec does not say what Start does to a channel that is
  ShouldSuspend; here the pending suspension is dropped and the channel is
  Initializing again. The call sites pass the sensor provider, which is bound at both
  of them; the argument is left out. A rejected request is the later event
  \<open>OnSensorFailed\<close>.
\<close>

definition Start :: "SensorEntry \<Rightarrow> SensorEntry" where
  "Start e =
     (case sensor_state e of
        IDLE \<Rightarrow> e\<lparr>sensor_state := INITIALIZING\<rparr>
      | SUSPENDED \<Rightarrow> e\<lparr>sensor_state := INITIALIZING\<rparr>
      | ERRORED \<Rightarrow> e\<lparr>sensor_state := INITIALIZING\<rparr>
      | SHOULD_SUSPEND \<Rightarrow> e\<lparr>sensor_state := INITIALIZING\<rparr>
      | INITIALIZING \<Rightarrow> e
      | ACTIVE \<Rightarrow> e)"

text \<open>
  Modelled from the spec: \<^verbatim>\<open>SensorEntry::Stop\<close>. The spec: an Initializing channel
  becomes ShouldSuspend, an Active channel becomes Suspended, and stopping a channel
  that is already stopped is a no-op.
\<close>

definition Stop :: "SensorEntry \<Rightarrow> SensorEntry" where
  "Stop e =
     (case sensor_state e of
        INITIALIZING \<Rightarrow> e\<lparr>sensor_state := SHOULD_SUSPEND\<rparr>
      | ACTIVE \<Rightarrow> e\<lparr>sensor_state := SUSPENDED\<rparr>
      | _ \<Rightarrow> e)"

text \<open>
  Modelled from the spec: \<^verbatim>\<open>SensorEntry::ReadyOrErrored\<close>. The spec: true once the
  channel is Active, Errored or Suspended.
\<close>

definition ReadyOrErrored :: "SensorEntry \<Rightarrow> bool" where
  "ReadyOrErrored e =
     (sensor_state e = ACTIVE \<or> sensor_state e = ERRORED \<or> sensor_state e = SUSPENDED)"

text \<open>
  Modelled from the spec: \<^verbatim>\<open>SensorEntry::SensorReadingCouldBeRead\<close>. The spec: true
  only when the channel is Active and the reading buffer reports a value that is not
  stale.
\<close>

definition SensorReadingCouldBeRead :: "SensorEntry \<Rightarrow> bool" where
  "SensorReadingCouldBeRead e = (sensor_state e = ACTIVE \<and> shared_buffer_readable e)"

text \<open>
  Modelled from the spec: what the sensor service does to a channel between the calls
  of the pump. The spec: a successful connection moves Initializing to Active, a
  ShouldSuspend channel is suspended once its initialization completes, and a failure
  at any point moves the channel to Errored. The service also writes the shared
  buffer.
\<close>

definition OnSensorConnected :: "SensorEntry \<Rightarrow> SensorEntry" where
  "OnSensorConnected e =
     (case sensor_state e of
        INITIALIZING \<Rightarrow> e\<lparr>sensor_state := ACTIVE\<rparr>
      | SHOULD_SUSPEND \<Rightarrow> e\<lparr>sensor_state := SUSPENDED\<rparr>
      | _ \<Rightarrow> e)"

definition OnSensorFailed :: "SensorEntry \<Rightarrow> SensorEntry" where
  "OnSensorFailed e = e\<lparr>sensor_state := ERRORED\<rparr>"

definition OnBufferWritten :: "bool \<Rightarrow> SensorReading \<Rightarrow> SensorEntry \<Rightarrow> SensorEntry" where
  "OnBufferWritten ok r e = e\<lparr>shared_buffer_readable := ok, reading := r\<rparr>"

text \<open>
  Modelled from the spec: a channel that was never started is Idle. Its buffer has not
  been written.
\<close>

definition SensorEntry_init :: SensorEntry where
  "SensorEntry_init =
     \<lparr> sensor_state = IDLE, shared_buffer_readable = False,
       reading = \<lparr> timestamp = Finite 0, orientation_euler_x = Finite 0,
                   orientation_euler_y = Finite 0, orientation_euler_z = Finite 0 \<rparr> \<rparr>"

section \<open>The orientation event pump\<close>

text \<open>
  The members of \<^verbatim>\<open>DeviceOrientationEventPump\<close>. \<open>sensor_provider_'\<close> tells whether
  the handle of the sensor service is bound, \<open>listener\<close> whether a listener is
  registered (\<^verbatim>\<open>listener()\<close> is not null), and \<open>data_'\<close> is the last sample that was
  delivered. A member whose name ends in an underscore in the source carries a prime
  after it here.
\<close>

record DeviceOrientationEventPump =
  relative_orientation_sensor_' :: SensorEntry
  absolute_orientation_sensor_' :: SensorEntry
  absolute_' :: bool
  fall_back_to_absolute_orientation_sensor_' :: bool
  should_suspend_absolute_orientation_sensor_' :: bool
  sensor_provider_' :: bool
  data_' :: OrientationData
  listener :: bool

text \<open>A failed \<^verbatim>\<open>DCHECK\<close> is the only error of the pump.\<close>

datatype error = DCHECK_failed

text \<open>
  The constructor: the fallback is pending exactly when the pump is not in absolute
  mode. A fresh pump has idle channels, no sensor provider, no listener and a default
  last sample. The constructor does not set
  \<open>should_suspend_absolute_orientation_sensor_'\<close>; the flag is false at first here,
  and \<^verbatim>\<open>SendStartMessage\<close> clears it before the relative channel is started.
\<close>

definition DeviceOrientationEventPump_init :: "bool \<Rightarrow> DeviceOrientationEventPump" where
  "DeviceOrientationEventPump_init absolute_mode =
     \<lparr> relative_orientation_sensor_' = SensorEntry_init,
       absolute_orientation_sensor_' = SensorEntry_init,
       absolute_' = absolute_mode,
       fall_back_to_absolute_orientation_sensor_' = (\<not> absolute_mode),
       should_suspend_absolute_orientation_sensor_' = False,
       sensor_provider_' = False,
       data_' = OrientationData_default,
       listener = False \<rparr>"

text \<open>
  \<^verbatim>\<open>SendStartMessage(frame)\<close>; \<open>frame\<close> tells whether the frame pointer is not null.
  Binding the sensor provider needs the frame.
\<close>

definition SendStartMessage ::
  "bool \<Rightarrow> DeviceOrientationEventPump \<Rightarrow> error + DeviceOrientationEventPump" where
  "SendStartMessage frame s =
     (if \<not> sensor_provider_' s \<and> \<not> frame then Inl DCHECK_failed
      else
        (if absolute_' s then
           Inr (s\<lparr>sensor_provider_' := True,
                  absolute_orientation_sensor_' := Start (absolute_orientation_sensor_' s)\<rparr>)
         else
           Inr (s\<lparr>sensor_provider_' := True,
                  fall_back_to_absolute_orientation_sensor_' := True,
                  should_suspend_absolute_orientation_sensor_' := False,
                  relative_orientation_sensor_' := Start (relative_orientation_sensor_' s)\<rparr>)))"

definition SendStopMessage :: "DeviceOrientationEventPump \<Rightarrow> DeviceOrientationEventPump" where
  "SendStopMessage s =
     (let rel = Stop (relative_orientation_sensor_' s) in
      s\<lparr>relative_orientation_sensor_' := rel,
        should_suspend_absolute_orientation_sensor_' :=
          (if sensor_state rel = SHOULD_SUSPEND \<and> fall_back_to_absolute_orientation_sensor_' s
           then True else should_suspend_absolute_orientation_sensor_' s),
        absolute_orientation_sensor_' := Stop (absolute_orientation_sensor_' s),
        data_' := OrientationData_default\<rparr>)"

text \<open>
  Modelled from the spec: \<^verbatim>\<open>DeviceSensorEventPump::DidStartIfPossible\<close>, the method of
  the base class that the pump delegates to. The spec: the default notification path
  that the pump became ready, an external collaborator. It changes no member of the
  pump that is modelled here.
\<close>

definition DeviceSensorEventPump_DidStartIfPossible ::
  "DeviceOrientationEventPump \<Rightarrow> DeviceOrientationEventPump" where
  "DeviceSensorEventPump_DidStartIfPossible s = s"

definition DidStartIfPossible :: "DeviceOrientationEventPump \<Rightarrow> DeviceOrientationEventPump" where
  "DidStartIfPossible s =
     (if \<not> absolute_' s \<and> \<not> sensor (relative_orientation_sensor_' s) \<and>
         fall_back_to_absolute_orientation_sensor_' s \<and> sensor_provider_' s
      then
        (let abs_started = Start (absolute_orientation_sensor_' s) in
         if should_suspend_absolute_orientation_sensor_' s then
           s\<lparr>fall_back_to_absolute_orientation_sensor_' := False,
             absolute_orientation_sensor_' := abs_started\<lparr>sensor_state := SHOULD_SUSPEND\<rparr>,
             should_suspend_absolute_orientation_sensor_' := False\<rparr>
         else
           s\<lparr>fall_back_to_absolute_orientation_sensor_' := False,
             absolute_orientation_sensor_' := abs_started\<rparr>)
      else DeviceSensorEventPump_DidStartIfPossible s)"

definition SensorsReadyOrErrored :: "DeviceOrientationEventPump \<Rightarrow> error + bool" where
  "SensorsReadyOrErrored s =
     (if \<not> ReadyOrErrored (relative_orientation_sensor_' s) \<or>
         \<not> ReadyOrErrored (absolute_orientation_sensor_' s)
      then Inr False
      else if sensor (relative_orientation_sensor_' s) \<and> sensor (absolute_orientation_sensor_' s)
      then Inl DCHECK_failed
      else Inr True)"

text \<open>
  The sample built from a channel whose reading could be read: a zero timestamp
  returns at once with the activity flag cleared, otherwise the angles are copied and
  an angle is present unless it is NaN.
\<close>

definition sample_from_reading :: "SensorReading \<Rightarrow> bool \<Rightarrow> OrientationData \<Rightarrow> OrientationData" where
  "sample_from_reading r is_absolute data =
     (if \<not> fne (timestamp r) (Finite 0)
      then data\<lparr>all_available_sensors_are_active := False\<rparr>
      else data\<lparr>all_available_sensors_are_active := True,
                alpha := orientation_euler_z r,
                beta := orientation_euler_x r,
                gamma := orientation_euler_y r,
                has_alpha := \<not> isnan (orientation_euler_z r),
                has_beta := \<not> isnan (orientation_euler_x r),
                has_gamma := \<not> isnan (orientation_euler_y r),
                absolute := is_absolute\<rparr>)"

definition GetDataFromSharedMemory :: "DeviceOrientationEventPump \<Rightarrow> OrientationData" where
  "GetDataFromSharedMemory s =
     (let data = OrientationData_default\<lparr>all_available_sensors_are_active := True\<rparr> in
      if \<not> absolute_' s \<and> SensorReadingCouldBeRead (relative_orientation_sensor_' s) then
        sample_from_reading (reading (relative_orientation_sensor_' s)) False data
      else if SensorReadingCouldBeRead (absolute_orientation_sensor_' s) then
        sample_from_reading (reading (absolute_orientation_sensor_' s)) True data
      else data\<lparr>absolute := absolute_' s\<rparr>)"

definition ShouldFireEvent :: "DeviceOrientationEventPump \<Rightarrow> OrientationData \<Rightarrow> bool" where
  "ShouldFireEvent s data =
     (if \<not> all_available_sensors_are_active data then False
      else if \<not> has_alpha data \<and> \<not> has_beta data \<and> \<not> has_gamma data then True
      else IsSignificantlyDifferent (data_' s) data)"

text \<open>
  \<^verbatim>\<open>FireEvent\<close>, the handler of a timer tick. It returns the new state of the pump and
  the samples passed to \<^verbatim>\<open>listener()->DidChangeDeviceOrientation\<close>, in order.
\<close>

definition FireEvent ::
  "DeviceOrientationEventPump \<Rightarrow> error + (DeviceOrientationEventPump \<times> OrientationData list)" where
  "FireEvent s =
     (if \<not> listener s then Inl DCHECK_failed
      else
        (let data = GetDataFromSharedMemory s in
         if ShouldFireEvent s data then Inr (s\<lparr>data_' := data\<rparr>, [data])
         else Inr (s, [])))"

section \<open>Runs of the pump\<close>

text \<open>
  What can happen to a pump: the four calls \<^verbatim>\<open>SendStartMessage\<close>,
  \<^verbatim>\<open>SendStopMessage\<close>, \<^verbatim>\<open>DidStartIfPossible\<close> and the timer tick \<^verbatim>\<open>FireEvent\<close>, and,
  between the calls, the events of its surroundings: the sensor service connects a
  channel, fails it or writes its shared buffer, and a listener is registered or
  removed.
\<close>

datatype event =
    CallSendStartMessage bool
  | CallSendStopMessage
  | CallDidStartIfPossible
  | CallFireEvent
  | SensorConnected SensorType
  | SensorFailed SensorType
  | BufferWritten SensorType bool SensorReading
  | ListenerChanged bool

fun is_start :: "event \<Rightarrow> bool" where
  "is_start (CallSendStartMessage frame) = True"
| "is_start _ = False"

fun on_sensor ::
  "SensorType \<Rightarrow> (SensorEntry \<Rightarrow> SensorEntry) \<Rightarrow> DeviceOrientationEventPump \<Rightarrow> DeviceOrientationEventPump" where
  "on_sensor RELATIVE_ORIENTATION_EULER_ANGLES f s =
     s\<lparr>relative_orientation_sensor_' := f (relative_orientation_sensor_' s)\<rparr>"
| "on_sensor ABSOLUTE_ORIENTATION_EULER_ANGLES f s =
     s\<lparr>absolute_orientation_sensor_' := f (absolute_orientation_sensor_' s)\<rparr>"

text \<open>
  One event: the new state and the samples delivered to the listener, or the error
  that stopped the call.
\<close>

fun step ::
  "event \<Rightarrow> DeviceOrientationEventPump \<Rightarrow> error + (DeviceOrientationEventPump \<times> OrientationData list)" where
  "step (CallSendStartMessage frame) s =
     (case SendStartMessage frame s of Inl err \<Rightarrow> Inl err | Inr s' \<Rightarrow> Inr (s', []))"
| "step CallSendStopMessage s = Inr (SendStopMessage s, [])"
| "step CallDidStartIfPossible s = Inr (DidStartIfPossible s, [])"
| "step CallFireEvent s = FireEvent s"
| "step (SensorConnected t) s = Inr (on_sensor t OnSensorConnected s, [])"
| "step (SensorFailed t) s = Inr (on_sensor t OnSensorFailed s, [])"
| "step (BufferWritten t ok r) s = Inr (on_sensor t (OnBufferWritten ok r) s, [])"
| "step (ListenerChanged b) s = Inr (s\<lparr>listener := b\<rparr>, [])"

text \<open>A sequence of events, stopping at the first error.\<close>

fun run ::
  "event list \<Rightarrow> DeviceOrientationEventPump \<Rightarrow> error + (DeviceOrientationEventPump \<times> OrientationData list)" where
  "run [] s = Inr (s, [])"
| "run (e # es) s =
     (case step e s of
        Inl err \<Rightarrow> Inl err
      | Inr (s', out) \<Rightarrow>
          (case run es s' of
             Inl err \<Rightarrow> Inl err
           | Inr (s'', out') \<Rightarrow> Inr (s'', out @ out')))"

text \<open>
  The fallback branch of \<^verbatim>\<open>DidStartIfPossible\<close> is taken in a state exactly when this
  condition holds; \<open>fallbacks\<close> counts how often a sequence of events takes it.
\<close>

definition fallback_fires :: "DeviceOrientationEventPump \<Rightarrow> bool" where
  "fallback_fires s =
     (\<not> absolute_' s \<and> \<not> sensor (relative_orientation_sensor_' s) \<and>
      fall_back_to_absolute_orientation_sensor_' s \<and> sensor_provider_' s)"

fun fallbacks :: "event list \<Rightarrow> DeviceOrientationEventPump \<Rightarrow> nat" where
  "fallbacks [] s = 0"
| "fallbacks (e # es) s =
     (case step e s of
        Inl err \<Rightarrow> 0
      | Inr (s', out) \<Rightarrow>
          (if e = CallDidStartIfPossible \<and> fallback_fires s then 1 else 0) + fallbacks es s')"

text \<open>
  The spec's words for the filter, over the real numbers: an axis differs
  significantly if its presence flag changed between the last sample and the
  candidate, or both are present and the absolute difference of the candidate's and
  the last value is at least 0.1 degrees.
\<close>

definition axis_differs_significantly :: "bool \<Rightarrow> real \<Rightarrow> bool \<Rightarrow> real \<Rightarrow> bool" where
  "axis_differs_significantly has_last last_angle has_candidate candidate_angle =
     (has_last \<noteq> has_candidate \<or>
      (has_last \<and> has_candidate \<and> 1 / 10 \<le> \<bar>candidate_angle - last_angle\<bar>))"

text \<open>
  The same words over binary64: the difference is the rounded difference of the two
  doubles, and it is compared with the binary64 constant.
\<close>

definition axis_differs_binary64 :: "bool \<Rightarrow> double \<Rightarrow> bool \<Rightarrow> double \<Rightarrow> bool" where
  "axis_differs_binary64 has_last last_angle has_candidate candidate_angle =
     (has_last \<noteq> has_candidate \<or>
      (has_last \<and> has_candidate \<and>
       fge (fabs (fsub candidate_angle last_angle)) kOrientationThreshold))"

section \<open>Example states\<close>

text \<open>
  A reading with a timestamp of 5 and the angles x = 1, y = 2, z = 3; the sample that
  the relative channel builds from it; a pump in relative mode whose relative channel
  is active with that reading and which has delivered that sample; and the same pump
  with a reading whose timestamp is zero.
\<close>

definition example_reading :: SensorReading where
  "example_reading =
     \<lparr> timestamp = Finite 5, orientation_euler_x = Finite 1,
       orientation_euler_y = Finite 2, orientation_euler_z = Finite 3 \<rparr>"

definition example_sample :: OrientationData where
  "example_sample =
     \<lparr> alpha = Finite 3, beta = Finite 1, gamma = Finite 2,
       has_alpha = True, has_beta = True, has_gamma = True,
       absolute = False, all_available_sensors_are_active = True \<rparr>"

definition example_running_pump :: DeviceOrientationEventPump where
  "example_running_pump =
     (DeviceOrientationEventPump_init False)
       \<lparr> relative_orientation_sensor_' :=
           \<lparr> sensor_state = ACTIVE, shared_buffer_readable = True, reading = example_reading \<rparr>,
         sensor_provider_' := True,
         data_' := example_sample,
         listener := True \<rparr>"

definition example_stale_pump :: DeviceOrientationEventPump where
  "example_stale_pump =
     example_running_pump
       \<lparr> relative_orientation_sensor_' :=
           \<lparr> sensor_state = ACTIVE, shared_buffer_readable = True,
             reading = example_reading\<lparr>timestamp := Finite 0\<rparr> \<rparr> \<rparr>"

text \<open>
  A pump in relative mode after its first \<^verbatim>\<open>SendStartMessage\<close>, and the same pump
  after its relative channel has failed.
\<close>

definition example_started_pump :: DeviceOrientationEventPump where
  "example_started_pump =
     (DeviceOrientationEventPump_init False)
       \<lparr> relative_orientation_sensor_' := SensorEntry_init\<lparr>sensor_state := INITIALIZING\<rparr>,
         sensor_provider_' := True \<rparr>"

definition example_failed_pump :: DeviceOrientationEventPump where
  "example_failed_pump =
     example_started_pump
       \<lparr> relative_orientation_sensor_' := SensorEntry_init\<lparr>sensor_state := ERRORED\<rparr> \<rparr>"

text \<open>
  A pump whose last sample has an alpha equal to the threshold constant and no other
  angle, and a candidate whose only angle is an alpha of \<^verbatim>\<open>2^-57\<close>. A pump whose last
  sample has a beta of 10 degrees and no other angle, and the candidates whose only
  angle is a beta of 10.5 degrees or of the binary64 value nearest to 10.1 degrees.
\<close>

definition example_threshold_pump :: DeviceOrientationEventPump where
  "example_threshold_pump =
     (DeviceOrientationEventPump_init False)
       \<lparr> data_' := OrientationData_default
           \<lparr> alpha := Finite (3602879701896397 / 2 ^ 55), has_alpha := True \<rparr> \<rparr>"

definition example_tiny_sample :: OrientationData where
  "example_tiny_sample =
     OrientationData_default
       \<lparr> alpha := Finite (1 / 2 ^ 57), has_alpha := True,
         all_available_sensors_are_active := True \<rparr>"

definition example_beta_pump :: DeviceOrientationEventPump where
  "example_beta_pump =
     (DeviceOrientationEventPump_init False)
       \<lparr> data_' := OrientationData_default\<lparr>beta := Finite 10, has_beta := True\<rparr> \<rparr>"

definition example_beta_sample :: "real \<Rightarrow> OrientationData" where
  "example_beta_sample b =
     OrientationData_default
       \<lparr> beta := Finite b, has_beta := True, all_available_sensors_are_active := True \<rparr>"

section \<open>Properties of the filter\<close>

lemmas example_defs =
  example_reading_def example_sample_def example_running_pump_def example_stale_pump_def
  DeviceOrientationEventPump_init_def SensorEntry_init_def OrientationData_default_def

lemmas example_run_defs =
  example_started_pump_def example_failed_pump_def
  SendStartMessage_def SendStopMessage_def DidStartIfPossible_def
  DeviceSensorEventPump_DidStartIfPossible_def Start_def Stop_def OnSensorConnected_def
  OnSensorFailed_def sensor_def fallback_fires_def

subsection \<open>Rounding to binary64\<close>

lemma round_half_even_zero: "round_half_even 0 = 0"
  by (simp add: round_half_even_def)

lemma round_to_53_bits_zero: "round_to_53_bits 0 = 0"
  by (simp add: round_to_53_bits_def round_half_even_zero)

lemma round_binary64_zero [simp]: "round_binary64 0 = Finite 0"
  by (simp add: round_binary64_def round_to_53_bits_zero)

lemma round_half_even_nonneg: "0 \<le> z \<Longrightarrow> 0 \<le> round_half_even z"
  by (simp add: round_half_even_def Let_def)

lemma round_to_53_bits_nonneg: "0 \<le> y \<Longrightarrow> 0 \<le> round_to_53_bits y"
  by (simp add: round_to_53_bits_def Let_def round_half_even_nonneg)

lemma round_half_even_ge:
  assumes "of_int k - 1 / 2 < z"
  shows "k \<le> round_half_even z"
proof -
  have "z < of_int \<lfloor>z\<rfloor> + 1" by linarith
  with assms have "of_int k < of_int \<lfloor>z\<rfloor> + (3 / 2 :: real)" by linarith
  then have f: "k - 1 \<le> \<lfloor>z\<rfloor>" by linarith
  show ?thesis
  proof (cases "k \<le> \<lfloor>z\<rfloor>")
    case True
    then show ?thesis by (auto simp add: round_half_even_def Let_def)
  next
    case False
    with f have e: "\<lfloor>z\<rfloor> = k - 1" by simp
    with assms have "1 / 2 < z - of_int \<lfloor>z\<rfloor>" by simp
    with e show ?thesis by (simp add: round_half_even_def Let_def)
  qed
qed

lemma bitlen_binade:
  assumes "2 ^ n \<le> k" and "k < 2 ^ Suc n"
  shows "bitlen k = int (Suc n)"
proof -
  from assms(2) have "k < 2 ^ nat (int (Suc n))" by (simp only: nat_int)
  then have "bitlen k \<le> int (Suc n)"
    by (simp only: bitlen_le_iff_power of_nat_0_le_iff simp_thms)
  moreover from assms(1) have "\<not> k < 2 ^ nat (int n)" by (simp only: nat_int not_less)
  then have "\<not> bitlen k \<le> int n"
    by (simp only: bitlen_le_iff_power simp_thms)
  ultimately show ?thesis by simp
qed

lemma round_to_53_bits_binade:
  assumes "2 ^ 52 \<le> z" and "z < 2 ^ 53"
  shows "round_to_53_bits (z * 2 ^ sh) = round_half_even z * 2 ^ sh"
proof -
  let ?y = "z * 2 ^ sh"
  have "(2::real) ^ (52 + sh) \<le> ?y"
    using assms(1) by (simp only: power_add mult_le_cancel_right_pos zero_less_power zero_less_numeral)
  then have "of_int ((2::int) ^ (52 + sh)) \<le> ?y" by (simp only: of_int_power of_int_numeral)
  then have lo: "(2::int) ^ (52 + sh) \<le> \<lfloor>?y\<rfloor>" by (simp only: le_floor_iff)
  have "?y < (2::real) ^ 53 * 2 ^ sh"
    using assms(2) by (simp only: mult_less_cancel_right_pos zero_less_power zero_less_numeral)
  also have "(2::real) ^ 53 * 2 ^ sh = 2 ^ Suc (52 + sh)"
    by (simp only: power_add [symmetric]) simp
  finally have "?y < of_int ((2::int) ^ Suc (52 + sh))" by (simp only: of_int_power of_int_numeral)
  then have hi: "\<lfloor>?y\<rfloor> < (2::int) ^ Suc (52 + sh)" by (simp only: floor_less_iff)
  from lo hi have "bitlen \<lfloor>?y\<rfloor> = int (Suc (52 + sh))" by (rule bitlen_binade)
  then have sh: "nat (bitlen \<lfloor>?y\<rfloor> - 53) = sh" by simp
  have yz: "?y / 2 ^ sh = z" by simp
  show ?thesis
    unfolding round_to_53_bits_def Let_def by (simp only: sh yz)
qed

lemma round_binary64_binade:
  assumes "\<bar>x\<bar> * 2 ^ 1074 = z * 2 ^ sh" and "2 ^ 52 \<le> z" and "z < 2 ^ 53"
  shows "round_binary64 x =
     (if 2 ^ 2098 \<le> round_half_even z * 2 ^ sh then (if x < 0 then NegInf else PosInf)
      else Finite (sgn x * of_int (round_half_even z * 2 ^ sh) / 2 ^ 1074))"
  unfolding round_binary64_def Let_def
  by (simp only: assms(1) round_to_53_bits_binade [OF assms(2,3)])

lemma fabs_round_binary64:
  "fabs (round_binary64 x) =
     (if 2 ^ 2098 \<le> round_to_53_bits (\<bar>x\<bar> * 2 ^ 1074) then PosInf
      else Finite (of_int (round_to_53_bits (\<bar>x\<bar> * 2 ^ 1074)) / 2 ^ 1074))"
proof (cases "x = 0")
  case True
  then show ?thesis
    unfolding round_binary64_def Let_def
    by (simp only: abs_zero mult_zero_left round_to_53_bits_zero) simp
next
  case False
  define n where "n = round_to_53_bits (\<bar>x\<bar> * 2 ^ 1074)"
  have "0 \<le> n" unfolding n_def by (rule round_to_53_bits_nonneg) simp
  then have "\<bar>sgn x * of_int n / 2 ^ 1074\<bar> = (of_int n / 2 ^ 1074 :: real)"
    using False by (simp add: abs_mult abs_sgn_eq del: power_numeral)
  then show ?thesis
    unfolding round_binary64_def Let_def n_def [symmetric]
    by (cases "2 ^ 2098 \<le> n"; cases "x < 0") (simp_all only: if_True if_False fabs.simps)
qed

subsection \<open>The comparison of two angles\<close>

lemma fabs_fsub_commute: "fabs (fsub a b) = fabs (fsub b a)"
proof (cases a; cases b)
  fix x y
  assume "a = Finite x" and "b = Finite y"
  then show ?thesis
    by (simp only: fsub.simps fabs_round_binary64 abs_minus_commute [of x y])
qed simp_all

lemma fabs_fsub_same_below_threshold: "\<not> fge (fabs (fsub a a)) kOrientationThreshold"
  by (cases a) (simp_all add: kOrientationThreshold_def)

lemma IsAngleDifferentThreshold_same: "\<not> IsAngleDifferentThreshold h a h a"
  by (simp add: IsAngleDifferentThreshold_def fabs_fsub_same_below_threshold)

lemma IsAngleDifferentThreshold_binary64:
  "IsAngleDifferentThreshold h1 a1 h2 a2 = axis_differs_binary64 h1 a1 h2 a2"
  unfolding IsAngleDifferentThreshold_def axis_differs_binary64_def
  using fabs_fsub_commute [of a1 a2] by auto

lemma round_to_53_bits_ge_threshold:
  assumes "2 ^ 1074 / 10 \<le> y"
  shows "7205759403792794 * 2 ^ 1018 \<le> round_to_53_bits y"
proof -
  define sh where "sh = nat (bitlen \<lfloor>y\<rfloor> - 53)"
  define z where "z = y / 2 ^ sh"
  have n: "round_to_53_bits y = round_half_even z * 2 ^ sh"
    by (simp only: round_to_53_bits_def Let_def sh_def z_def)
  have "(2::real) ^ 1070 \<le> 2 ^ 1074 / 10" by simp
  with assms have "of_int ((2::int) ^ 1070) \<le> y" by simp
  then have f: "(2::int) ^ 1070 \<le> \<lfloor>y\<rfloor>" by (simp only: le_floor_iff)
  then have "\<not> \<lfloor>y\<rfloor> < 2 ^ nat 1070" by simp
  then have "\<not> bitlen \<lfloor>y\<rfloor> \<le> 1070" by (simp only: bitlen_le_iff_power simp_thms)
  then have b: "bitlen \<lfloor>y\<rfloor> = int sh + 53" and s: "1018 \<le> sh"
    by (simp_all add: sh_def)
  from f have "0 < \<lfloor>y\<rfloor>" by (simp del: power_numeral zero_less_floor add: less_le_trans [of 0 "2 ^ 1070"])
  then have "2 ^ nat (bitlen \<lfloor>y\<rfloor> - 1) \<le> \<lfloor>y\<rfloor>" by (simp only: bitlen_bounds)
  moreover have "nat (bitlen \<lfloor>y\<rfloor> - 1) = 52 + sh" by (simp add: b)
  ultimately have "(2::int) ^ (52 + sh) \<le> \<lfloor>y\<rfloor>" by simp
  then have "of_int ((2::int) ^ (52 + sh)) \<le> y" by (simp only: le_floor_iff)
  then have "(2::real) ^ 52 * 2 ^ sh \<le> y"
    by (simp only: of_int_power of_int_numeral of_int_mult power_add)
  then have z52: "2 ^ 52 \<le> z" by (simp add: z_def pos_le_divide_eq del: power_numeral)
  show ?thesis
  proof (cases "sh = 1018")
    case True
    from assms have "2 ^ 1074 / 10 / 2 ^ 1018 \<le> z"
      by (simp only: z_def True divide_le_cancel) simp
    then have "of_int 7205759403792794 - 1 / 2 < z" by simp
    then have "7205759403792794 \<le> round_half_even z" by (rule round_half_even_ge)
    then show ?thesis by (simp only: n True mult_le_cancel_right) simp
  next
    case False
    with s have s': "1019 \<le> sh" by simp
    from z52 have "of_int ((2::int) ^ 52) - 1 / 2 < z" by simp
    then have r: "2 ^ 52 \<le> round_half_even z" by (rule round_half_even_ge)
    have "(7205759403792794 :: int) * 2 ^ 1018 \<le> 2 ^ 52 * 2 ^ 1019" by simp
    also from s' have "(2::int) ^ 52 * 2 ^ 1019 \<le> 2 ^ 52 * 2 ^ sh"
      by (simp only: mult_le_cancel_left_pos zero_less_power zero_less_numeral
          power_increasing one_le_numeral)
    also from r have "(2::int) ^ 52 * 2 ^ sh \<le> round_half_even z * 2 ^ sh"
      by (simp only: mult_le_cancel_right zero_less_power zero_less_numeral) simp
    finally show ?thesis by (simp only: n)
  qed
qed

lemma tenth_apart_reaches_threshold:
  assumes "1 / 10 \<le> \<bar>x\<bar>"
  shows "fge (fabs (round_binary64 x)) kOrientationThreshold"
proof -
  define n where "n = round_to_53_bits (\<bar>x\<bar> * 2 ^ 1074)"
  from assms have "1 / 10 * 2 ^ 1074 \<le> \<bar>x\<bar> * (2 ^ 1074 :: real)"
    by (simp only: mult_le_cancel_right_pos zero_less_power zero_less_numeral)
  then have "2 ^ 1074 / 10 \<le> \<bar>x\<bar> * (2 ^ 1074 :: real)" by simp
  then have "7205759403792794 * 2 ^ 1018 \<le> n"
    unfolding n_def by (rule round_to_53_bits_ge_threshold)
  then have "(of_int (7205759403792794 * 2 ^ 1018) :: real) \<le> of_int n"
    by (simp only: of_int_le_iff)
  then have "(of_int (7205759403792794 * 2 ^ 1018) :: real) / 2 ^ 1074 \<le> of_int n / 2 ^ 1074"
    by (simp only: divide_le_cancel) simp
  moreover have "(of_int (7205759403792794 * 2 ^ 1018) :: real) / 2 ^ 1074 = 3602879701896397 / 2 ^ 55"
    by simp
  ultimately have "3602879701896397 / 2 ^ 55 \<le> (of_int n :: real) / 2 ^ 1074" by (simp only:)
  then show ?thesis
    by (cases "2 ^ 2098 \<le> n")
      (simp_all only: fabs_round_binary64 n_def [symmetric] kOrientationThreshold_def
        if_True if_False fge.simps)
qed

lemma round_half_even_of_int: "round_half_even (of_int m) = m"
  by (simp add: round_half_even_def)

lemma round_binary64_exact:
  assumes y: "\<bar>x\<bar> * 2 ^ 1074 = of_int m * 2 ^ sh"
    and m: "2 ^ 52 \<le> m" "m < 2 ^ 53" and r: "m * 2 ^ sh < 2 ^ 2098"
  shows "round_binary64 x = Finite x"
proof -
  from m(1) have "of_int ((2::int) ^ 52) \<le> (of_int m :: real)" by (simp only: of_int_le_iff)
  then have m1: "(2::real) ^ 52 \<le> of_int m" by (simp only: of_int_power of_int_numeral)
  from m(2) have "(of_int m :: real) < of_int ((2::int) ^ 53)" by (simp only: of_int_less_iff)
  then have m2: "of_int m < (2::real) ^ 53" by (simp only: of_int_power of_int_numeral)
  note m1 m2
  with y have "round_binary64 x =
     (if 2 ^ 2098 \<le> round_half_even (of_int m) * 2 ^ sh then (if x < 0 then NegInf else PosInf)
      else Finite (sgn x * of_int (round_half_even (of_int m) * 2 ^ sh) / 2 ^ 1074))"
    by (rule round_binary64_binade)
  with r have "round_binary64 x = Finite (sgn x * of_int (m * 2 ^ sh) / 2 ^ 1074)"
    by (simp only: round_half_even_of_int not_le [symmetric] if_False)
  also have "(of_int (m * 2 ^ sh) :: real) = \<bar>x\<bar> * 2 ^ 1074"
    by (simp only: y of_int_mult of_int_power of_int_numeral)
  also have "sgn x * (\<bar>x\<bar> * 2 ^ 1074) / 2 ^ 1074 = x"
    by (simp add: sgn_mult_abs del: power_numeral flip: mult.assoc)
  finally show ?thesis .
qed

text \<open>
  Checks of the rounding against known binary64 values: the decimal literals 0.1,
  10.1 and 0.0999, a tie between two subnormal values, a tie above \<^verbatim>\<open>2^53\<close>, and the
  overflow to infinity.
\<close>

lemma round_binary64_one_tenth: "round_binary64 (1 / 10) = kOrientationThreshold"
proof -
  have "round_half_even (72057594037927936 / 10) = 7205759403792794"
    by (simp add: round_half_even_def)
  moreover have "\<bar>1 / 10 :: real\<bar> * 2 ^ 1074 = (72057594037927936 / 10) * 2 ^ 1018"
    by simp
  ultimately show ?thesis
    using round_binary64_binade [of "1 / 10" "72057594037927936 / 10" 1018]
    by (simp add: kOrientationThreshold_def)
qed

lemma round_binary64_ten_point_one:
  "round_binary64 (101 / 10) = Finite (5685794529555251 / 2 ^ 49)"
proof -
  have "round_half_even (101 / 10 * 2 ^ 49) = 5685794529555251"
    by (simp add: round_half_even_def)
  moreover have "\<bar>101 / 10 :: real\<bar> * 2 ^ 1074 = (101 / 10 * 2 ^ 49) * 2 ^ 1025"
    by simp
  ultimately show ?thesis
    using round_binary64_binade [of "101 / 10" "101 / 10 * 2 ^ 49" 1025]
    by simp
qed

lemma round_binary64_0999:
  "round_binary64 (999 / 10000) = Finite (7198553644389001 / 2 ^ 56)"
proof -
  have "round_half_even (999 / 10000 * 2 ^ 56) = 7198553644389001"
    by (simp add: round_half_even_def)
  moreover have "\<bar>999 / 10000 :: real\<bar> * 2 ^ 1074 = (999 / 10000 * 2 ^ 56) * 2 ^ 1018"
    by simp
  ultimately show ?thesis
    using round_binary64_binade [of "999 / 10000" "999 / 10000 * 2 ^ 56" 1018]
    by simp
qed

lemma round_binary64_subnormal:
  assumes "0 < x" and "x * 2 ^ 1074 < 2 ^ 53"
  shows "round_binary64 x = Finite (of_int (round_half_even (x * 2 ^ 1074)) / 2 ^ 1074)"
proof -
  let ?y = "x * 2 ^ 1074"
  from assms(2) have "\<lfloor>?y\<rfloor> < 2 ^ nat 53" by (simp add: floor_less_iff)
  then have "bitlen \<lfloor>?y\<rfloor> \<le> 53" by (simp only: bitlen_le_iff_power) simp
  then have sh: "nat (bitlen \<lfloor>?y\<rfloor> - 53) = 0" by simp
  have r: "round_to_53_bits ?y = round_half_even ?y"
    unfolding round_to_53_bits_def Let_def by (simp only: sh power_0 div_by_1 mult_1_right)
  have "round_half_even ?y \<le> 2 ^ 53"
    using assms(2) by (auto simp add: round_half_even_def Let_def floor_less_iff)
  then have n: "(2 ^ 2098 \<le> round_half_even ?y) = False" by simp
  from assms(1) have a: "\<bar>x\<bar> = x" and s: "sgn x = 1" by simp_all
  show ?thesis
    unfolding round_binary64_def Let_def by (simp only: a s r n if_False mult_1)
qed

lemma round_binary64_subnormal_ties:
  "round_binary64 (1 / 2 ^ 1075) = Finite 0 \<and>
   round_binary64 (3 / 2 ^ 1075) = Finite (2 / 2 ^ 1074)"
  using round_binary64_subnormal [of "1 / 2 ^ 1075"] round_binary64_subnormal [of "3 / 2 ^ 1075"]
  by (simp add: round_half_even_def)

lemma round_binary64_tie_above_53_bits:
  "round_binary64 (2 ^ 53 + 1) = Finite (2 ^ 53) \<and>
   round_binary64 (2 ^ 53 + 3) = Finite (2 ^ 53 + 4)"
proof -
  have "\<bar>2 ^ 53 + 1 :: real\<bar> * 2 ^ 1074 = (2 ^ 52 + 1 / 2) * 2 ^ 1075"
    and "\<bar>2 ^ 53 + 3 :: real\<bar> * 2 ^ 1074 = (2 ^ 52 + 3 / 2) * 2 ^ 1075"
    by simp_all
  then show ?thesis
    using round_binary64_binade [of "2 ^ 53 + 1" "2 ^ 52 + 1 / 2" 1075]
      round_binary64_binade [of "2 ^ 53 + 3" "2 ^ 52 + 3 / 2" 1075]
    by (simp add: round_half_even_def)
qed

lemma round_binary64_overflow:
  "round_binary64 (2 ^ 1024 - 2 ^ 971) = Finite (2 ^ 1024 - 2 ^ 971) \<and>
   round_binary64 (- (2 ^ 1024 - 2 ^ 970)) = NegInf"
proof -
  have "round_binary64 (2 ^ 1024 - 2 ^ 971) = Finite (2 ^ 1024 - 2 ^ 971)"
    by (rule round_binary64_exact [of _ "2 ^ 53 - 1" 2045]) simp_all
  moreover have "\<bar>- (2 ^ 1024 - 2 ^ 970) :: real\<bar> * 2 ^ 1074 = (2 ^ 53 - 1 / 2) * 2 ^ 2045"
    by simp
  then have "round_binary64 (- (2 ^ 1024 - 2 ^ 970)) = NegInf"
    using round_binary64_binade [of "- (2 ^ 1024 - 2 ^ 970)" "2 ^ 53 - 1 / 2" 2045]
    by (simp add: round_half_even_def)
  ultimately show ?thesis by simp
qed

text \<open>
  Claim C4 says that a candidate with the same angle values and presence flags as
  the stored last sample never fires. It fails when all three angles are absent: a
  fresh pump stores the default sample, and the default sample with the activity flag
  set has the same angles and flags and fires.
\<close>

theorem ShouldFireEvent_identical_all_absent_fires:
  "data_' (DeviceOrientationEventPump_init False) = OrientationData_default \<and>
   has_alpha OrientationData_default =
     has_alpha (OrientationData_default\<lparr>all_available_sensors_are_active := True\<rparr>) \<and>
   has_beta OrientationData_default =
     has_beta (OrientationData_default\<lparr>all_available_sensors_are_active := True\<rparr>) \<and>
   has_gamma OrientationData_default =
     has_gamma (OrientationData_default\<lparr>all_available_sensors_are_active := True\<rparr>) \<and>
   alpha OrientationData_default =
     alpha (OrientationData_default\<lparr>all_available_sensors_are_active := True\<rparr>) \<and>
   beta OrientationData_default =
     beta (OrientationData_default\<lparr>all_available_sensors_are_active := True\<rparr>) \<and>
   gamma OrientationData_default =
     gamma (OrientationData_default\<lparr>all_available_sensors_are_active := True\<rparr>) \<and>
   ShouldFireEvent (DeviceOrientationEventPump_init False)
     (OrientationData_default\<lparr>all_available_sensors_are_active := True\<rparr>)"
  by (simp add: DeviceOrientationEventPump_init_def OrientationData_default_def ShouldFireEvent_def)

text \<open>
  Claim C4, amended. For every stored last sample \<open>A\<close> and candidate \<open>B\<close> with
  identical angle values and presence flags, \<^verbatim>\<open>ShouldFireEvent\<close> returns true exactly
  when \<open>B\<close> has its activity flag set and all three angles absent; in particular it
  returns false whenever at least one angle is present.
\<close>

theorem ShouldFireEvent_identical_sample:
  assumes "data_' s = A"
    and "has_alpha A = has_alpha B" and "has_beta A = has_beta B" and "has_gamma A = has_gamma B"
    and "alpha A = alpha B" and "beta A = beta B" and "gamma A = gamma B"
  shows "ShouldFireEvent s B =
           (all_available_sensors_are_active B \<and> \<not> has_alpha B \<and> \<not> has_beta B \<and> \<not> has_gamma B)"
  using assms
  by (auto simp add: ShouldFireEvent_def IsSignificantlyDifferent_def IsAngleDifferentThreshold_same)

text \<open>An instance: the same alpha of 30 degrees in both samples does not fire.\<close>

theorem ShouldFireEvent_identical_sample_witness:
  "\<not> ShouldFireEvent
       ((DeviceOrientationEventPump_init False)
          \<lparr>data_' := OrientationData_default\<lparr>alpha := Finite 30, has_alpha := True,
                                                all_available_sensors_are_active := True\<rparr>\<rparr>)
       (OrientationData_default\<lparr>alpha := Finite 30, has_alpha := True,
                                  all_available_sensors_are_active := True\<rparr>)"
  using ShouldFireEvent_identical_sample
    [of "(DeviceOrientationEventPump_init False)
          \<lparr>data_' := OrientationData_default\<lparr>alpha := Finite 30, has_alpha := True,
                                                all_available_sensors_are_active := True\<rparr>\<rparr>"
        "OrientationData_default\<lparr>alpha := Finite 30, has_alpha := True,
                                  all_available_sensors_are_active := True\<rparr>"
        "OrientationData_default\<lparr>alpha := Finite 30, has_alpha := True,
                                  all_available_sensors_are_active := True\<rparr>"]
  by simp

text \<open>
  Claim C6. For every stored last sample, a candidate whose three angles are all
  absent and whose activity flag is set makes \<^verbatim>\<open>ShouldFireEvent\<close> return true, also
  when the last sample is all-absent itself.
\<close>

theorem ShouldFireEvent_all_absent_candidate:
  assumes "all_available_sensors_are_active candidate"
    and "\<not> has_alpha candidate" and "\<not> has_beta candidate" and "\<not> has_gamma candidate"
  shows "ShouldFireEvent s candidate"
  using assms by (simp add: ShouldFireEvent_def)

text \<open>An instance with an all-absent last sample.\<close>

theorem ShouldFireEvent_all_absent_candidate_witness:
  "ShouldFireEvent
     ((DeviceOrientationEventPump_init True)\<lparr>data_' := OrientationData_default\<lparr>absolute := True\<rparr>\<rparr>)
     (OrientationData_default\<lparr>absolute := True, all_available_sensors_are_active := True\<rparr>)"
  using ShouldFireEvent_all_absent_candidate
    [of "OrientationData_default\<lparr>absolute := True, all_available_sensors_are_active := True\<rparr>"
        "(DeviceOrientationEventPump_init True)\<lparr>data_' := OrientationData_default\<lparr>absolute := True\<rparr>\<rparr>"]
  by (simp add: OrientationData_default_def)

lemma round_binary64_below_threshold_tie:
  "round_binary64 (3602879701896397 / 2 ^ 55 - 1 / 2 ^ 57) = Finite (3602879701896397 / 2 ^ 55)"
proof -
  have "round_half_even (14411518807585587 / 2) = 7205759403792794"
    by (simp add: round_half_even_def)
  moreover have "\<bar>3602879701896397 / 2 ^ 55 - 1 / 2 ^ 57 :: real\<bar> * 2 ^ 1074 =
      (14411518807585587 / 2) * 2 ^ 1018"
    by simp
  ultimately show ?thesis
    using round_binary64_binade
      [of "3602879701896397 / 2 ^ 55 - 1 / 2 ^ 57" "14411518807585587 / 2" 1018]
    by simp
qed

lemma is_binary64_threshold: "is_binary64 (Finite (3602879701896397 / 2 ^ 55))"
  unfolding is_binary64.simps
  by (rule round_binary64_exact [of _ 7205759403792794 1018]) simp_all

lemma is_binary64_tiny: "is_binary64 (Finite (1 / 2 ^ 57))"
  unfolding is_binary64.simps
  by (rule round_binary64_exact [of _ 4503599627370496 965]) simp_all

lemma is_binary64_ten_point_one: "is_binary64 (Finite (5685794529555251 / 2 ^ 49))"
  unfolding is_binary64.simps
  by (rule round_binary64_exact [of _ 5685794529555251 1025]) simp_all

lemma is_binary64_0999: "is_binary64 (Finite (7198553644389001 / 2 ^ 56))"
  unfolding is_binary64.simps
  by (rule round_binary64_exact [of _ 7198553644389001 1018]) simp_all

lemma fsub_ten_point_one:
  "fsub (Finite (5685794529555251 / 2 ^ 49)) (Finite 10) = Finite (56294995342131 / 2 ^ 49)"
proof -
  have "round_binary64 (5685794529555251 / 2 ^ 49 - 10) = Finite (5685794529555251 / 2 ^ 49 - 10)"
    by (rule round_binary64_exact [of _ 7205759403792768 1018]) simp_all
  then show ?thesis by simp
qed

lemma fsub_zero_0999:
  "fsub (Finite 0) (Finite (7198553644389001 / 2 ^ 56)) = Finite (- (7198553644389001 / 2 ^ 56))"
proof -
  have "round_binary64 (0 - 7198553644389001 / 2 ^ 56) = Finite (0 - 7198553644389001 / 2 ^ 56)"
    by (rule round_binary64_exact [of _ 7198553644389001 1018]) simp_all
  then show ?thesis by simp
qed

lemma fsub_zero_threshold:
  "fsub (Finite 0) (Finite (3602879701896397 / 2 ^ 55)) = Finite (- (3602879701896397 / 2 ^ 55))"
proof -
  have "round_binary64 (0 - 3602879701896397 / 2 ^ 55) = Finite (0 - 3602879701896397 / 2 ^ 55)"
    by (rule round_binary64_exact [of _ 7205759403792794 1018]) simp_all
  then show ?thesis by simp
qed

text \<open>
  Claim C7 says that a candidate with the activity flag set and some angle present
  fires if and only if some axis differs significantly, an axis with both values
  present differing significantly exactly when the absolute difference of the values
  is at least 0.1 degrees. The code subtracts in binary64 and compares with the
  binary64 constant nearest to 0.1, so the claim fails just below one tenth: the last
  alpha is that constant and the candidate's alpha is \<^verbatim>\<open>2^-57\<close>, both binary64 values;
  their difference is less than one tenth, it lies halfway between two binary64
  values and is rounded to the constant, and the candidate fires.
\<close>

theorem ShouldFireEvent_fires_below_one_tenth:
  "alpha (data_' example_threshold_pump) = Finite (3602879701896397 / 2 ^ 55) \<and>
   alpha example_tiny_sample = Finite (1 / 2 ^ 57) \<and>
   is_binary64 (alpha (data_' example_threshold_pump)) \<and>
   is_binary64 (alpha example_tiny_sample) \<and>
   all_available_sensors_are_active example_tiny_sample \<and>
   has_alpha example_tiny_sample \<and>
   \<not> axis_differs_significantly
       (has_alpha (data_' example_threshold_pump)) (3602879701896397 / 2 ^ 55)
       (has_alpha example_tiny_sample) (1 / 2 ^ 57) \<and>
   \<not> axis_differs_significantly
       (has_beta (data_' example_threshold_pump)) 0 (has_beta example_tiny_sample) 0 \<and>
   \<not> axis_differs_significantly
       (has_gamma (data_' example_threshold_pump)) 0 (has_gamma example_tiny_sample) 0 \<and>
   ShouldFireEvent example_threshold_pump example_tiny_sample"
proof -
  have a: "alpha (data_' example_threshold_pump) = Finite (3602879701896397 / 2 ^ 55)"
    and b: "alpha example_tiny_sample = Finite (1 / 2 ^ 57)"
    by (simp_all add: example_threshold_pump_def example_tiny_sample_def
        DeviceOrientationEventPump_init_def OrientationData_default_def)
  have f: "has_alpha (data_' example_threshold_pump)" "\<not> has_beta (data_' example_threshold_pump)"
    "\<not> has_gamma (data_' example_threshold_pump)" "has_alpha example_tiny_sample"
    "\<not> has_beta example_tiny_sample" "\<not> has_gamma example_tiny_sample"
    "all_available_sensors_are_active example_tiny_sample"
    by (simp_all add: example_threshold_pump_def example_tiny_sample_def
        DeviceOrientationEventPump_init_def OrientationData_default_def)
  have d: "\<not> axis_differs_significantly True (3602879701896397 / 2 ^ 55) True (1 / 2 ^ 57)"
    by (simp add: axis_differs_significantly_def)
  have z: "\<not> axis_differs_significantly False 0 False 0"
    by (simp add: axis_differs_significantly_def)
  have "fsub (Finite (3602879701896397 / 2 ^ 55)) (Finite (1 / 2 ^ 57)) =
      Finite (3602879701896397 / 2 ^ 55)"
    by (simp only: fsub.simps round_binary64_below_threshold_tie)
  then have "IsAngleDifferentThreshold True (Finite (3602879701896397 / 2 ^ 55)) True (Finite (1 / 2 ^ 57))"
    by (simp add: IsAngleDifferentThreshold_def kOrientationThreshold_def)
  with a b f have s: "ShouldFireEvent example_threshold_pump example_tiny_sample"
    by (simp add: ShouldFireEvent_def IsSignificantlyDifferent_def)
  from a b f d z s is_binary64_threshold is_binary64_tiny show ?thesis by simp
qed

text \<open>
  Claim C7, amended. For a candidate with the activity flag set and at least one
  angle present, \<^verbatim>\<open>ShouldFireEvent\<close> returns true if and only if some axis differs
  significantly, where an axis differs significantly exactly when its presence flag
  differs between the last sample and the candidate, or both values are present and
  their binary64 difference, in absolute value, is at least the binary64 constant
  nearest to 0.1. On an axis present in both samples a rounded difference equal to the
  constant counts as different and every smaller rounded difference, 0.0999 among
  them, does not; an exact difference of at least 0.1 always counts as different.
\<close>

theorem ShouldFireEvent_iff_axis_differs_binary64:
  "(all_available_sensors_are_active candidate \<and>
    (has_alpha candidate \<or> has_beta candidate \<or> has_gamma candidate) \<longrightarrow>
    ShouldFireEvent s candidate =
      (axis_differs_binary64 (has_alpha (data_' s)) (alpha (data_' s))
         (has_alpha candidate) (alpha candidate) \<or>
       axis_differs_binary64 (has_beta (data_' s)) (beta (data_' s))
         (has_beta candidate) (beta candidate) \<or>
       axis_differs_binary64 (has_gamma (data_' s)) (gamma (data_' s))
         (has_gamma candidate) (gamma candidate))) \<and>
   (fabs (fsub a b) = kOrientationThreshold \<longrightarrow> IsAngleDifferentThreshold True a True b) \<and>
   (fabs (fsub a b) = Finite d \<and> d < 3602879701896397 / 2 ^ 55 \<longrightarrow>
      \<not> IsAngleDifferentThreshold True a True b) \<and>
   (1 / 10 \<le> \<bar>x - y\<bar> \<longrightarrow> IsAngleDifferentThreshold True (Finite x) True (Finite y))"
proof (intro conjI impI)
  assume "all_available_sensors_are_active candidate \<and>
    (has_alpha candidate \<or> has_beta candidate \<or> has_gamma candidate)"
  then show "ShouldFireEvent s candidate =
      (axis_differs_binary64 (has_alpha (data_' s)) (alpha (data_' s))
         (has_alpha candidate) (alpha candidate) \<or>
       axis_differs_binary64 (has_beta (data_' s)) (beta (data_' s))
         (has_beta candidate) (beta candidate) \<or>
       axis_differs_binary64 (has_gamma (data_' s)) (gamma (data_' s))
         (has_gamma candidate) (gamma candidate))"
    unfolding ShouldFireEvent_def IsSignificantlyDifferent_def IsAngleDifferentThreshold_binary64
    by auto
next
  assume "fabs (fsub a b) = kOrientationThreshold"
  then show "IsAngleDifferentThreshold True a True b"
    by (simp add: IsAngleDifferentThreshold_def kOrientationThreshold_def)
next
  assume "fabs (fsub a b) = Finite d \<and> d < 3602879701896397 / 2 ^ 55"
  then show "\<not> IsAngleDifferentThreshold True a True b"
    by (simp add: IsAngleDifferentThreshold_def kOrientationThreshold_def)
next
  assume "1 / 10 \<le> \<bar>x - y\<bar>"
  then have "fge (fabs (round_binary64 (x - y))) kOrientationThreshold"
    by (rule tenth_apart_reaches_threshold)
  then show "IsAngleDifferentThreshold True (Finite x) True (Finite y)"
    by (simp add: IsAngleDifferentThreshold_def)
qed

text \<open>
  Instances, all on binary64 values. A beta that moves from 10 to 10.5 degrees fires.
  A beta that moves from 10 degrees to the binary64 value nearest to 10.1 degrees
  does not: the rounded difference is \<^verbatim>\<open>56294995342131 / 2^49\<close>, below the constant.
  A difference equal to the constant counts as different, and a difference equal to
  the binary64 value nearest to 0.0999 does not.
\<close>

theorem ShouldFireEvent_iff_axis_differs_binary64_witness:
  "ShouldFireEvent example_beta_pump (example_beta_sample (21 / 2)) \<and>
   is_binary64 (Finite (5685794529555251 / 2 ^ 49)) \<and>
   \<not> ShouldFireEvent example_beta_pump (example_beta_sample (5685794529555251 / 2 ^ 49)) \<and>
   IsAngleDifferentThreshold True (Finite 0) True (Finite (3602879701896397 / 2 ^ 55)) \<and>
   is_binary64 (Finite (7198553644389001 / 2 ^ 56)) \<and>
   \<not> IsAngleDifferentThreshold True (Finite 0) True (Finite (7198553644389001 / 2 ^ 56)) \<and>
   IsAngleDifferentThreshold True (Finite 10) True (Finite (21 / 2))"
proof -
  have p: "data_' example_beta_pump = OrientationData_default\<lparr>beta := Finite 10, has_beta := True\<rparr>"
    by (simp add: example_beta_pump_def DeviceOrientationEventPump_init_def)
  have far: "IsAngleDifferentThreshold True (Finite 10) True (Finite (21 / 2))"
    using ShouldFireEvent_iff_axis_differs_binary64
      [of "example_beta_sample (21 / 2)" example_beta_pump "Finite 0" "Finite 0" 0 10 "21 / 2"]
    by simp
  then have "axis_differs_binary64 True (Finite 10) True (Finite (21 / 2))"
    by (simp only: IsAngleDifferentThreshold_binary64)
  then have w1: "ShouldFireEvent example_beta_pump (example_beta_sample (21 / 2))"
    using ShouldFireEvent_iff_axis_differs_binary64
      [of "example_beta_sample (21 / 2)" example_beta_pump "Finite 0" "Finite 0" 0 10 "21 / 2"]
    by (simp add: p example_beta_sample_def OrientationData_default_def)
  have "\<not> axis_differs_binary64 True (Finite 10) True (Finite (5685794529555251 / 2 ^ 49))"
    unfolding axis_differs_binary64_def
    by (simp only: fsub_ten_point_one) (simp add: kOrientationThreshold_def)
  then have w2: "\<not> ShouldFireEvent example_beta_pump
      (example_beta_sample (5685794529555251 / 2 ^ 49))"
    using ShouldFireEvent_iff_axis_differs_binary64
      [of "example_beta_sample (5685794529555251 / 2 ^ 49)" example_beta_pump
          "Finite 0" "Finite 0" 0 0 0]
    by (simp add: p example_beta_sample_def OrientationData_default_def
        axis_differs_binary64_def del: fsub.simps power_numeral)
  have w3: "IsAngleDifferentThreshold True (Finite 0) True (Finite (3602879701896397 / 2 ^ 55))"
    using ShouldFireEvent_iff_axis_differs_binary64
      [of "example_beta_sample 0" example_beta_pump
          "Finite 0" "Finite (3602879701896397 / 2 ^ 55)" 0 0 0]
    by (simp only: fsub_zero_threshold) (simp add: kOrientationThreshold_def)
  have w4: "\<not> IsAngleDifferentThreshold True (Finite 0) True (Finite (7198553644389001 / 2 ^ 56))"
    using ShouldFireEvent_iff_axis_differs_binary64
      [of "example_beta_sample 0" example_beta_pump
          "Finite 0" "Finite (7198553644389001 / 2 ^ 56)" "7198553644389001 / 2 ^ 56" 0 0]
    by (simp only: fsub_zero_0999) simp
  from w1 w2 w3 w4 far is_binary64_ten_point_one is_binary64_0999 show ?thesis by simp
qed

section \<open>Properties of a tick\<close>

text \<open>
  Claim C5 says that a tick on which neither channel can be read builds a sample
  whose activity flag equals the absolute-mode flag of the pump. It fails for a fresh
  pump in relative mode: the activity flag of the sample is true and the mode flag is
  false.
\<close>

theorem GetDataFromSharedMemory_no_reading_flag_differs:
  "\<not> SensorReadingCouldBeRead (relative_orientation_sensor_' (DeviceOrientationEventPump_init False)) \<and>
   \<not> SensorReadingCouldBeRead (absolute_orientation_sensor_' (DeviceOrientationEventPump_init False)) \<and>
   all_available_sensors_are_active (GetDataFromSharedMemory (DeviceOrientationEventPump_init False)) \<noteq>
     absolute_' (DeviceOrientationEventPump_init False)"
  by (simp add: DeviceOrientationEventPump_init_def SensorEntry_init_def SensorReadingCouldBeRead_def
      GetDataFromSharedMemory_def)

text \<open>
  Claim C5, amended. On a tick where neither channel has a reading that can be
  read (the relative one cannot be read or the pump is in absolute mode, and the
  absolute one cannot be read), the sample built by \<^verbatim>\<open>GetDataFromSharedMemory\<close> has
  the activity flag set, its flag \<open>absolute\<close> equal to the absolute-mode flag of the
  pump, and all three angles absent.
\<close>

theorem GetDataFromSharedMemory_no_reading:
  assumes "\<not> SensorReadingCouldBeRead (relative_orientation_sensor_' s) \<or> absolute_' s"
    and "\<not> SensorReadingCouldBeRead (absolute_orientation_sensor_' s)"
  shows "all_available_sensors_are_active (GetDataFromSharedMemory s) \<and>
         absolute (GetDataFromSharedMemory s) = absolute_' s \<and>
         \<not> has_alpha (GetDataFromSharedMemory s) \<and>
         \<not> has_beta (GetDataFromSharedMemory s) \<and>
         \<not> has_gamma (GetDataFromSharedMemory s)"
  using assms by (auto simp add: GetDataFromSharedMemory_def OrientationData_default_def)

text \<open>An instance: a fresh pump in absolute mode.\<close>

theorem GetDataFromSharedMemory_no_reading_witness:
  "all_available_sensors_are_active (GetDataFromSharedMemory (DeviceOrientationEventPump_init True)) \<and>
   absolute (GetDataFromSharedMemory (DeviceOrientationEventPump_init True)) \<and>
   \<not> has_alpha (GetDataFromSharedMemory (DeviceOrientationEventPump_init True)) \<and>
   \<not> has_beta (GetDataFromSharedMemory (DeviceOrientationEventPump_init True)) \<and>
   \<not> has_gamma (GetDataFromSharedMemory (DeviceOrientationEventPump_init True))"
  using GetDataFromSharedMemory_no_reading [of "DeviceOrientationEventPump_init True"]
  by (simp add: DeviceOrientationEventPump_init_def SensorEntry_init_def SensorReadingCouldBeRead_def)

lemma sample_from_reading_zero_timestamp:
  "timestamp r = Finite 0 \<Longrightarrow>
   sample_from_reading r b data = data\<lparr>all_available_sensors_are_active := False\<rparr>"
  by (simp add: sample_from_reading_def)

lemma ShouldFireEvent_inactive: "\<not> all_available_sensors_are_active c \<Longrightarrow> \<not> ShouldFireEvent s c"
  by (simp add: ShouldFireEvent_def)

text \<open>
  Claim C9. On a tick where the channel that is selected and can be read has a
  reading with timestamp zero, the sample has the activity flag cleared and all three
  angles absent; \<^verbatim>\<open>ShouldFireEvent\<close> is false for every candidate whose activity flag is
  cleared, whatever its angles; and the tick delivers nothing and leaves the pump as
  it was.
\<close>

theorem FireEvent_zero_timestamp:
  assumes "(\<not> absolute_' s \<and> SensorReadingCouldBeRead (relative_orientation_sensor_' s) \<and>
            timestamp (reading (relative_orientation_sensor_' s)) = Finite 0) \<or>
           (\<not> (\<not> absolute_' s \<and> SensorReadingCouldBeRead (relative_orientation_sensor_' s)) \<and>
            SensorReadingCouldBeRead (absolute_orientation_sensor_' s) \<and>
            timestamp (reading (absolute_orientation_sensor_' s)) = Finite 0)"
  shows "\<not> all_available_sensors_are_active (GetDataFromSharedMemory s) \<and>
         \<not> has_alpha (GetDataFromSharedMemory s) \<and>
         \<not> has_beta (GetDataFromSharedMemory s) \<and>
         \<not> has_gamma (GetDataFromSharedMemory s) \<and>
         (\<not> all_available_sensors_are_active c \<longrightarrow> \<not> ShouldFireEvent s' c) \<and>
         FireEvent s = (if listener s then Inr (s, []) else Inl DCHECK_failed)"
proof -
  have d: "GetDataFromSharedMemory s = OrientationData_default\<lparr>all_available_sensors_are_active := False\<rparr>"
    using assms
    by (auto simp add: GetDataFromSharedMemory_def sample_from_reading_zero_timestamp)
  have "\<not> ShouldFireEvent s (GetDataFromSharedMemory s)"
    by (simp add: d ShouldFireEvent_def)
  then have "FireEvent s = (if listener s then Inr (s, []) else Inl DCHECK_failed)"
    by (simp add: FireEvent_def)
  then show ?thesis
    by (simp add: d OrientationData_default_def ShouldFireEvent_inactive)
qed

text \<open>
  An instance: the relative channel is active with a reading of timestamp zero, and a
  candidate 87 degrees away from the last sample with the activity flag cleared.
\<close>

theorem FireEvent_zero_timestamp_witness:
  "\<not> all_available_sensors_are_active (GetDataFromSharedMemory example_stale_pump) \<and>
   \<not> has_alpha (GetDataFromSharedMemory example_stale_pump) \<and>
   \<not> has_beta (GetDataFromSharedMemory example_stale_pump) \<and>
   \<not> has_gamma (GetDataFromSharedMemory example_stale_pump) \<and>
   \<not> ShouldFireEvent example_running_pump
       (example_sample\<lparr>alpha := Finite 90, all_available_sensors_are_active := False\<rparr>) \<and>
   FireEvent example_stale_pump = Inr (example_stale_pump, [])"
  using FireEvent_zero_timestamp
    [of example_stale_pump
        "example_sample\<lparr>alpha := Finite 90, all_available_sensors_are_active := False\<rparr>"
        example_running_pump]
  by (simp add: example_defs SensorReadingCouldBeRead_def)

text \<open>
  Claim C10. A tick passes at most one sample to the listener, and when
  \<^verbatim>\<open>ShouldFireEvent\<close> is false for the sample of the tick, the pump, with its stored
  last sample, is unchanged and the listener is not called.
\<close>

theorem FireEvent_at_most_one_event:
  assumes "FireEvent s = Inr (s', out)"
  shows "length out \<le> 1 \<and>
         (\<not> ShouldFireEvent s (GetDataFromSharedMemory s) \<longrightarrow> s' = s \<and> out = [])"
  using assms by (auto simp add: FireEvent_def Let_def split: if_splits)

text \<open>An instance: the reading equals the last delivered sample, so nothing is delivered.\<close>

theorem FireEvent_at_most_one_event_witness:
  "FireEvent example_running_pump = Inr (example_running_pump, []) \<and>
   \<not> ShouldFireEvent example_running_pump (GetDataFromSharedMemory example_running_pump) \<and>
   length ([] :: OrientationData list) \<le> 1"
proof -
  have f: "FireEvent example_running_pump = Inr (example_running_pump, [])"
    by (simp add: example_defs FireEvent_def GetDataFromSharedMemory_def sample_from_reading_def
        SensorReadingCouldBeRead_def ShouldFireEvent_def IsSignificantlyDifferent_def
        IsAngleDifferentThreshold_def kOrientationThreshold_def)
  have n: "\<not> ShouldFireEvent example_running_pump (GetDataFromSharedMemory example_running_pump)"
    by (simp add: example_defs GetDataFromSharedMemory_def sample_from_reading_def
        SensorReadingCouldBeRead_def ShouldFireEvent_def IsSignificantlyDifferent_def
        IsAngleDifferentThreshold_def kOrientationThreshold_def)
  from FireEvent_at_most_one_event [OF f] f n show ?thesis by simp
qed

lemma step_silent_keeps_absent:
  assumes "step e s = Inr (s', [])"
    and "\<not> has_alpha (data_' s) \<and> \<not> has_beta (data_' s) \<and> \<not> has_gamma (data_' s)"
  shows "\<not> has_alpha (data_' s') \<and> \<not> has_beta (data_' s') \<and> \<not> has_gamma (data_' s')"
proof (cases e)
  case (CallSendStartMessage frame)
  with assms show ?thesis
    by (auto simp add: SendStartMessage_def split: if_splits)
next
  case CallSendStopMessage
  with assms show ?thesis
    by (auto simp add: SendStopMessage_def Let_def OrientationData_default_def)
next
  case CallDidStartIfPossible
  with assms show ?thesis
    by (auto simp add: DidStartIfPossible_def DeviceSensorEventPump_DidStartIfPossible_def Let_def
        split: if_splits)
next
  case CallFireEvent
  with assms show ?thesis
    by (auto simp add: FireEvent_def Let_def split: if_splits)
next
  case (SensorConnected t)
  with assms show ?thesis by (cases t) auto
next
  case (SensorFailed t)
  with assms show ?thesis by (cases t) auto
next
  case (BufferWritten t ok r)
  with assms show ?thesis by (cases t) auto
next
  case (ListenerChanged b)
  with assms show ?thesis by auto
qed

lemma run_Cons_Inr:
  assumes "run (e # es) s = Inr (s2, out)"
  obtains s1 out1 out2 where "step e s = Inr (s1, out1)" and "run es s1 = Inr (s2, out2)"
    and "out = out1 @ out2"
  using assms by (auto split: sum.splits prod.splits)

lemma run_silent_keeps_absent:
  assumes "run evs s = Inr (s', [])"
    and "\<not> has_alpha (data_' s) \<and> \<not> has_beta (data_' s) \<and> \<not> has_gamma (data_' s)"
  shows "\<not> has_alpha (data_' s') \<and> \<not> has_beta (data_' s') \<and> \<not> has_gamma (data_' s')"
  using assms
proof (induction evs arbitrary: s)
  case Nil
  then show ?case by simp
next
  case (Cons e es)
  from Cons.prems(1) obtain s1 out1 out2 where
    st: "step e s = Inr (s1, out1)" and rn: "run es s1 = Inr (s', out2)" and o: "[] = out1 @ out2"
    by (rule run_Cons_Inr)
  from o have "out1 = []" and "out2 = []" by simp_all
  with st rn Cons.prems(2) Cons.IH [of s1] step_silent_keeps_absent [of e s s1]
  show ?case by blast
qed

lemma ShouldFireEvent_after_reset:
  assumes "\<not> has_alpha (data_' s) \<and> \<not> has_beta (data_' s) \<and> \<not> has_gamma (data_' s)"
    and "all_available_sensors_are_active d"
  shows "ShouldFireEvent s d"
  using assms
  by (auto simp add: ShouldFireEvent_def IsSignificantlyDifferent_def IsAngleDifferentThreshold_def)

text \<open>
  Claim C8. \<^verbatim>\<open>SendStopMessage\<close> always resets the stored last sample to the default,
  all-absent sample. Hence after a stop and a start, and after any further events that
  delivered nothing, a tick whose sample has the activity flag set delivers that
  sample, whatever sample was stored before the stop.
\<close>

theorem SendStopMessage_resets_last_sample:
  "data_' (SendStopMessage s) = OrientationData_default \<and>
   (run (CallSendStopMessage # CallSendStartMessage frame # evs) s = Inr (s2, []) \<and>
    listener s2 \<and> all_available_sensors_are_active (GetDataFromSharedMemory s2) \<longrightarrow>
    FireEvent s2 =
      Inr (s2\<lparr>data_' := GetDataFromSharedMemory s2\<rparr>, [GetDataFromSharedMemory s2]))"
proof (intro conjI impI)
  show "data_' (SendStopMessage s) = OrientationData_default"
    by (simp add: SendStopMessage_def Let_def)
next
  assume a: "run (CallSendStopMessage # CallSendStartMessage frame # evs) s = Inr (s2, []) \<and>
    listener s2 \<and> all_available_sensors_are_active (GetDataFromSharedMemory s2)"
  then obtain s1 out1 out2 where
    st: "step CallSendStopMessage s = Inr (s1, out1)"
    and rn: "run (CallSendStartMessage frame # evs) s1 = Inr (s2, out2)" and o: "[] = out1 @ out2"
    by (blast elim: run_Cons_Inr)
  from st have s1: "s1 = SendStopMessage s" by simp
  from o have "out2 = []" by simp
  with rn have rn': "run (CallSendStartMessage frame # evs) s1 = Inr (s2, [])" by simp
  have "\<not> has_alpha (data_' s1) \<and> \<not> has_beta (data_' s1) \<and> \<not> has_gamma (data_' s1)"
    by (simp add: s1 SendStopMessage_def Let_def OrientationData_default_def)
  with rn' have "\<not> has_alpha (data_' s2) \<and> \<not> has_beta (data_' s2) \<and> \<not> has_gamma (data_' s2)"
    by (rule run_silent_keeps_absent)
  with a have "ShouldFireEvent s2 (GetDataFromSharedMemory s2)"
    by (simp add: ShouldFireEvent_after_reset)
  moreover from a have "listener s2" by simp
  ultimately show "FireEvent s2 =
      Inr (s2\<lparr>data_' := GetDataFromSharedMemory s2\<rparr>, [GetDataFromSharedMemory s2])"
    by (simp add: FireEvent_def Let_def)
qed

text \<open>
  An instance: the pump has delivered the example sample; it is stopped and started
  and its relative channel connects again; the next tick reads the very same sample
  and delivers it.
\<close>

theorem SendStopMessage_resets_last_sample_witness:
  "data_' (SendStopMessage example_running_pump) = OrientationData_default \<and>
   run [CallSendStopMessage, CallSendStartMessage True,
        SensorConnected RELATIVE_ORIENTATION_EULER_ANGLES] example_running_pump =
     Inr (example_running_pump\<lparr>data_' := OrientationData_default\<rparr>, []) \<and>
   GetDataFromSharedMemory (example_running_pump\<lparr>data_' := OrientationData_default\<rparr>) =
     data_' example_running_pump \<and>
   FireEvent (example_running_pump\<lparr>data_' := OrientationData_default\<rparr>) =
     Inr (example_running_pump, [example_sample])"
proof -
  have r: "run [CallSendStopMessage, CallSendStartMessage True,
        SensorConnected RELATIVE_ORIENTATION_EULER_ANGLES] example_running_pump =
     Inr (example_running_pump\<lparr>data_' := OrientationData_default\<rparr>, [])"
    by (simp add: example_defs SendStopMessage_def SendStartMessage_def Start_def Stop_def
        OnSensorConnected_def)
  have g: "GetDataFromSharedMemory (example_running_pump\<lparr>data_' := OrientationData_default\<rparr>) =
     example_sample"
    by (simp add: example_defs GetDataFromSharedMemory_def sample_from_reading_def
        SensorReadingCouldBeRead_def)
  have l: "listener (example_running_pump\<lparr>data_' := OrientationData_default\<rparr>)"
    by (simp add: example_defs)
  have e: "example_running_pump\<lparr>data_' := example_sample\<rparr> = example_running_pump"
    by (simp add: example_defs)
  have a: "all_available_sensors_are_active example_sample"
    by (simp add: example_defs)
  have d: "data_' example_running_pump = example_sample"
    by (simp add: example_defs)
  from SendStopMessage_resets_last_sample
    [of example_running_pump True "[SensorConnected RELATIVE_ORIENTATION_EULER_ANGLES]"
        "example_running_pump\<lparr>data_' := OrientationData_default\<rparr>"]
    r g l e a d
  show ?thesis by simp
qed

section \<open>Properties of the fallback\<close>

lemma step_keeps_fallback_cleared:
  assumes "step e s = Inr (s', out)" and "\<not> is_start e"
    and "\<not> fall_back_to_absolute_orientation_sensor_' s"
  shows "\<not> fall_back_to_absolute_orientation_sensor_' s'"
proof (cases e)
  case (CallSendStartMessage frame)
  with assms show ?thesis by simp
next
  case CallSendStopMessage
  with assms show ?thesis by (auto simp add: SendStopMessage_def Let_def)
next
  case CallDidStartIfPossible
  with assms show ?thesis
    by (auto simp add: DidStartIfPossible_def DeviceSensorEventPump_DidStartIfPossible_def)
next
  case CallFireEvent
  with assms show ?thesis by (auto simp add: FireEvent_def Let_def split: if_splits)
next
  case (SensorConnected t)
  with assms show ?thesis by (cases t) auto
next
  case (SensorFailed t)
  with assms show ?thesis by (cases t) auto
next
  case (BufferWritten t ok r)
  with assms show ?thesis by (cases t) auto
next
  case (ListenerChanged b)
  with assms show ?thesis by auto
qed

lemma fallbacks_zero_when_cleared:
  assumes "\<forall>e \<in> set evs. \<not> is_start e"
    and "\<not> fall_back_to_absolute_orientation_sensor_' s"
  shows "fallbacks evs s = 0"
  using assms
proof (induction evs arbitrary: s)
  case Nil
  then show ?case by simp
next
  case (Cons e es)
  show ?case
  proof (cases "step e s")
    case (Inl err)
    then show ?thesis by simp
  next
    case (Inr p)
    obtain s' out where p: "p = (s', out)" by (cases p)
    from Inr p Cons.prems step_keeps_fallback_cleared [of e s s' out]
    have "\<not> fall_back_to_absolute_orientation_sensor_' s'" by simp
    with Cons.IH [of s'] Cons.prems have "fallbacks es s' = 0" by simp
    moreover from Cons.prems have "\<not> fallback_fires s" by (simp add: fallback_fires_def)
    ultimately show ?thesis using Inr p by simp
  qed
qed

lemma DidStartIfPossible_clears_fallback:
  "fallback_fires s \<Longrightarrow> \<not> fall_back_to_absolute_orientation_sensor_' (DidStartIfPossible s)"
  by (simp add: fallback_fires_def DidStartIfPossible_def Let_def)

lemma fallbacks_at_most_once:
  assumes "\<forall>e \<in> set evs. \<not> is_start e"
  shows "fallbacks evs s \<le> 1"
  using assms
proof (induction evs arbitrary: s)
  case Nil
  then show ?case by simp
next
  case (Cons e es)
  show ?case
  proof (cases "step e s")
    case (Inl err)
    then show ?thesis by simp
  next
    case (Inr p)
    obtain s' out where p: "p = (s', out)" by (cases p)
    show ?thesis
    proof (cases "e = CallDidStartIfPossible \<and> fallback_fires s")
      case True
      with Inr p have "s' = DidStartIfPossible s" by simp
      with True have "\<not> fall_back_to_absolute_orientation_sensor_' s'"
        by (simp add: DidStartIfPossible_clears_fallback)
      with Cons.prems have "fallbacks es s' = 0"
        by (simp add: fallbacks_zero_when_cleared)
      with True Inr p show ?thesis by simp
    next
      case False
      from Cons.IH [of s'] Cons.prems have "fallbacks es s' \<le> 1" by simp
      with False Inr p show ?thesis by auto
    qed
  qed
qed

text \<open>
  Claim C2. When the pump is not in absolute mode, the relative channel holds no
  live subscription, the fallback flag is set and the sensor provider is bound,
  \<^verbatim>\<open>DidStartIfPossible\<close> clears the fallback flag and starts the absolute channel; in
  every other state it leaves the pump as it is. In a start cycle, a sequence of events
  with no \<^verbatim>\<open>SendStartMessage\<close> in it, this happens at most once, however often the
  relative channel fails afterwards.
\<close>

theorem DidStartIfPossible_fallback_once:
  "(fallback_fires s \<longrightarrow>
      \<not> fall_back_to_absolute_orientation_sensor_' (DidStartIfPossible s) \<and>
      absolute_orientation_sensor_' (DidStartIfPossible s) =
        (if should_suspend_absolute_orientation_sensor_' s
         then (Start (absolute_orientation_sensor_' s))\<lparr>sensor_state := SHOULD_SUSPEND\<rparr>
         else Start (absolute_orientation_sensor_' s))) \<and>
   (\<not> fallback_fires s \<longrightarrow> DidStartIfPossible s = s) \<and>
   ((\<forall>e \<in> set evs. \<not> is_start e) \<longrightarrow> fallbacks evs s0 \<le> 1)"
proof (intro conjI impI)
  assume "fallback_fires s"
  then show "\<not> fall_back_to_absolute_orientation_sensor_' (DidStartIfPossible s)"
    by (rule DidStartIfPossible_clears_fallback)
next
  assume "fallback_fires s"
  then show "absolute_orientation_sensor_' (DidStartIfPossible s) =
        (if should_suspend_absolute_orientation_sensor_' s
         then (Start (absolute_orientation_sensor_' s))\<lparr>sensor_state := SHOULD_SUSPEND\<rparr>
         else Start (absolute_orientation_sensor_' s))"
    by (simp add: fallback_fires_def DidStartIfPossible_def Let_def)
next
  assume "\<not> fallback_fires s"
  then show "DidStartIfPossible s = s"
    by (auto simp add: fallback_fires_def DidStartIfPossible_def
        DeviceSensorEventPump_DidStartIfPossible_def)
next
  assume "\<forall>e \<in> set evs. \<not> is_start e"
  then show "fallbacks evs s0 \<le> 1" by (rule fallbacks_at_most_once)
qed

text \<open>
  An instance: the relative channel fails, the fallback starts the absolute channel,
  the relative channel fails again and the second \<^verbatim>\<open>DidStartIfPossible\<close> changes
  nothing.
\<close>

theorem DidStartIfPossible_fallback_once_witness:
  "fallback_fires example_failed_pump \<and>
   \<not> fall_back_to_absolute_orientation_sensor_' (DidStartIfPossible example_failed_pump) \<and>
   sensor_state (absolute_orientation_sensor_' (DidStartIfPossible example_failed_pump)) =
     INITIALIZING \<and>
   \<not> fallback_fires (DidStartIfPossible example_failed_pump) \<and>
   DidStartIfPossible (DidStartIfPossible example_failed_pump) =
     DidStartIfPossible example_failed_pump \<and>
   fallbacks
     [SensorFailed RELATIVE_ORIENTATION_EULER_ANGLES, CallDidStartIfPossible,
      SensorFailed RELATIVE_ORIENTATION_EULER_ANGLES, CallDidStartIfPossible]
     example_started_pump = 1"
proof -
  have f: "fallback_fires example_failed_pump"
    by (simp add: example_run_defs example_defs)
  have n: "\<not> fallback_fires (DidStartIfPossible example_failed_pump)"
    by (simp add: example_run_defs example_defs)
  have i: "sensor_state (Start (absolute_orientation_sensor_' example_failed_pump)) = INITIALIZING"
    and p: "\<not> should_suspend_absolute_orientation_sensor_' example_failed_pump"
    by (simp_all add: example_run_defs example_defs)
  have c: "fallbacks
     [SensorFailed RELATIVE_ORIENTATION_EULER_ANGLES, CallDidStartIfPossible,
      SensorFailed RELATIVE_ORIENTATION_EULER_ANGLES, CallDidStartIfPossible]
     example_started_pump \<ge> 1"
    by (simp add: example_run_defs example_defs)
  from DidStartIfPossible_fallback_once
    [of example_failed_pump
        "[SensorFailed RELATIVE_ORIENTATION_EULER_ANGLES, CallDidStartIfPossible,
          SensorFailed RELATIVE_ORIENTATION_EULER_ANGLES, CallDidStartIfPossible]"
        example_started_pump]
    DidStartIfPossible_fallback_once
      [of "DidStartIfPossible example_failed_pump" "[]" example_started_pump]
    f n i p c
  show ?thesis by simp
qed





end
